theory Spec2Isabelle
  imports Complex_Main "HOL-Library.Word"
begin

section \<open>Scan planner: the lawnmower pattern\<close>

text \<open>
  \<^verbatim>\<open>MicroscopeStitcher.generate_lawnmower_pattern\<close> (main_control.py). A move is the
  pair \<^verbatim>\<open>(y_cmd, x_cmd)\<close> of one-character strings. \<^verbatim>\<open>rows_to_scan\<close> and
  \<^verbatim>\<open>steps_per_row\<close> are Python integers; \<^verbatim>\<open>range(n)\<close> is empty for \<open>n \<le> 0\<close>.
\<close>

type_synonym move = "string \<times> string"

text \<open>The inner loop \<^verbatim>\<open>for step in range(self.steps_per_row - 1)\<close>, by the number of
  iterations that remain.\<close>

fun row_loop :: "nat \<Rightarrow> bool \<Rightarrow> move list \<Rightarrow> move list" where
  "row_loop 0 going_right pattern = pattern"
| "row_loop (Suc k) going_right pattern =
     row_loop k going_right
       (if going_right then pattern @ [(''S'', ''R'')] else pattern @ [(''S'', ''L'')])"

text \<open>The outer loop \<^verbatim>\<open>for row in range(self.rows_to_scan)\<close>, over the row indices that
  remain; the state of the loop is \<^verbatim>\<open>going_right\<close> and \<^verbatim>\<open>pattern\<close>.\<close>

fun rows_loop :: "int \<Rightarrow> int \<Rightarrow> nat list \<Rightarrow> bool \<Rightarrow> move list \<Rightarrow> move list" where
  "rows_loop rows_to_scan steps_per_row [] going_right pattern = pattern"
| "rows_loop rows_to_scan steps_per_row (row # rest) going_right pattern =
     (let pattern1 = row_loop (nat (steps_per_row - 1)) going_right pattern
      in if int row < rows_to_scan - 1
         then rows_loop rows_to_scan steps_per_row rest (\<not> going_right)
                (pattern1 @ [(''D'', ''S'')])
         else rows_loop rows_to_scan steps_per_row rest going_right pattern1)"

definition generate_lawnmower_pattern :: "int \<Rightarrow> int \<Rightarrow> move list" where
  "generate_lawnmower_pattern rows_to_scan steps_per_row =
     rows_loop rows_to_scan steps_per_row [0 ..< nat rows_to_scan] True []"

text \<open>The pattern in the words of the specification: for each row, \<open>steps_per_row - 1\<close>
  horizontal moves in the row's direction (right on even rows, left on odd ones, the
  direction flipping after each down move), then one down move except after the last row.\<close>

definition row_direction :: "nat \<Rightarrow> move" where
  "row_direction r = (if even r then (''S'', ''R'') else (''S'', ''L''))"

definition boustrophedon_row :: "int \<Rightarrow> int \<Rightarrow> nat \<Rightarrow> move list" where
  "boustrophedon_row rows_to_scan steps_per_row r =
     replicate (nat (steps_per_row - 1)) (row_direction r) @
     (if int r < rows_to_scan - 1 then [(''D'', ''S'')] else [])"

definition boustrophedon :: "int \<Rightarrow> int \<Rightarrow> move list" where
  "boustrophedon rows_to_scan steps_per_row =
     concat (map (boustrophedon_row rows_to_scan steps_per_row) [0 ..< nat rows_to_scan])"

definition is_horizontal :: "move \<Rightarrow> bool" where
  "is_horizontal m = (m = (''S'', ''R'') \<or> m = (''S'', ''L''))"

definition is_down :: "move \<Rightarrow> bool" where
  "is_down m = (m = (''D'', ''S''))"


section \<open>Servo controller: the position ledger and command dispatch\<close>

text \<open>
  The part of \<^verbatim>\<open>MicroscopeStitcher\<close> that \<^verbatim>\<open>send_step\<close> and \<^verbatim>\<open>set_home\<close> read and
  write, and the two attributes of the rate limit of \<^verbatim>\<open>send_motor_command_simple\<close>
  (wall-clock seconds, \<^verbatim>\<open>time.time()\<close>, read as real numbers; the source sets the interval
  to 3.0). \<^verbatim>\<open>arduino\<close> is whether the serial object is present (truthy), \<^verbatim>\<open>home_set\<close> is
  the attribute \<^verbatim>\<open>self.set\<close>, \<^verbatim>\<open>pos_label\<close> is the position last shown by the label and
  \<^verbatim>\<open>wire\<close> is the list of lines that \<^verbatim>\<open>self.arduino.write\<close> has put on the serial link.
\<close>

record stage =
  arduino_connected :: bool
  arduino :: bool
  home_set :: bool
  abs_x :: int
  abs_y :: int
  status_var :: string
  pos_label :: "int \<times> int"
  wire :: "string list"
  last_motor_command_time :: real
  MOTOR_COMMAND_INTERVAL :: real

text \<open>What the serial link does during one call: \<^verbatim>\<open>write\<close> raises; or \<^verbatim>\<open>write\<close>
  returns and reading the response (\<^verbatim>\<open>in_waiting\<close>, \<^verbatim>\<open>readline().decode()\<close>) raises; or
  both return, with the response line when one was waiting. The string of the first two
  is \<^verbatim>\<open>str(e)\<close>.\<close>

datatype link_event =
    WriteRaises string
  | ReadRaises string
  | Delivered "string option"

definition prospective :: "stage \<Rightarrow> string \<Rightarrow> string \<Rightarrow> int \<times> int" where
  "prospective s y_cmd x_cmd =
     (let new_abs_x = abs_x s;
          new_abs_y = abs_y s;
          new_abs_y = (if y_cmd = ''U'' then new_abs_y + 1
                       else if y_cmd = ''D'' then new_abs_y - 1 else new_abs_y);
          new_abs_x = (if x_cmd = ''L'' then new_abs_x + 1
                       else if x_cmd = ''R'' then new_abs_x - 1 else new_abs_x)
      in (new_abs_x, new_abs_y))"

definition send_step :: "stage \<Rightarrow> link_event \<Rightarrow> string \<Rightarrow> string \<Rightarrow> bool \<times> stage" where
  "send_step s ev y_cmd x_cmd =
     (if \<not> arduino_connected s \<or> \<not> arduino s
      then (False, s\<lparr>status_var := ''Arduino not connected''\<rparr>)
      else
        (let (new_abs_x, new_abs_y) = prospective s y_cmd x_cmd
         in if home_set s \<and> new_abs_x < 0
            then (False, s\<lparr>status_var := ''Cannot move right - at boundary (x=0)''\<rparr>)
            else if home_set s \<and> new_abs_y < 0
            then (False, s\<lparr>status_var := ''Cannot move down - at boundary (y=0)''\<rparr>)
            else
              (let cmd = y_cmd @ x_cmd @ [CHR 0x0A]
               in case ev of
                    WriteRaises e \<Rightarrow>
                      (False, s\<lparr>status_var := ''COMMUNICATION ERROR: '' @ e\<rparr>)
                  | ReadRaises e \<Rightarrow>
                      (False, s\<lparr>wire := wire s @ [cmd],
                                 status_var := ''COMMUNICATION ERROR: '' @ e\<rparr>)
                  | Delivered response \<Rightarrow>
                      (True, s\<lparr>wire := wire s @ [cmd],
                                abs_x := new_abs_x, abs_y := new_abs_y,
                                pos_label := (new_abs_x, new_abs_y)\<rparr>))))"

text \<open>\<^verbatim>\<open>set_home\<close>: only with a connected link.\<close>

definition set_home :: "stage \<Rightarrow> stage" where
  "set_home s =
     (if arduino_connected s \<and> arduino s
      then s\<lparr>abs_x := 0, abs_y := 0, pos_label := (0, 0), home_set := True\<rparr>
      else s)"

text \<open>A sequence of \<^verbatim>\<open>send_step\<close> calls, each with what the link does during it.\<close>

fun send_steps :: "stage \<Rightarrow> (link_event \<times> string \<times> string) list \<Rightarrow> stage" where
  "send_steps s [] = s"
| "send_steps s ((ev, y_cmd, x_cmd) # calls) = send_steps (snd (send_step s ev y_cmd x_cmd)) calls"












section \<open>Mosaic builder: blending, translation estimate, placement\<close>

text \<open>
  Images are numpy arrays of shape (rows, cols, 3) and type uint8: a pixel is its three
  channels, an image its two dimensions and the pixel at each row and column (only the
  pixels inside the dimensions are part of the array).
\<close>

type_synonym pixel = "8 word \<times> 8 word \<times> 8 word"

record image =
  rows :: nat
  cols :: nat
  px :: "nat \<Rightarrow> nat \<Rightarrow> pixel"

datatype py_error = ValueError | IndexError | TypeError | CvError

text \<open>\<^verbatim>\<open>np.sum(region, axis=2)\<close> at one pixel; numpy adds uint8 values in a wider
  integer type, so the sum does not wrap.\<close>

definition channel_sum :: "pixel \<Rightarrow> nat" where
  "channel_sum p = (case p of (b, g, r) \<Rightarrow> unat b + unat g + unat r)"

text \<open>\<^verbatim>\<open>(alpha * c + (1 - alpha) * n).astype(np.uint8)\<close> on one channel: the sum is
  computed in floating point (exactly, for these operands) and lies in 0..255, and the
  cast drops the fraction.\<close>

definition mix_channel :: "real \<Rightarrow> 8 word \<Rightarrow> 8 word \<Rightarrow> 8 word" where
  "mix_channel alpha c n =
     word_of_int \<lfloor>alpha * real (unat c) + (1 - alpha) * real (unat n)\<rfloor>"

definition mix_pixel :: "real \<Rightarrow> pixel \<Rightarrow> pixel \<Rightarrow> pixel" where
  "mix_pixel alpha c n =
     (case (c, n) of ((cb, cg, cr), (nb, ng, nr)) \<Rightarrow>
        (mix_channel alpha cb nb, mix_channel alpha cg ng, mix_channel alpha cr nr))"

text \<open>\<^verbatim>\<open>blend_regions\<close> at one pixel: the two boolean masks come from the arguments, and
  the two masked assignments are made in the order of the source.\<close>

definition blend_pixel :: "pixel \<Rightarrow> pixel \<Rightarrow> pixel" where
  "blend_pixel c n =
     (let alpha = 1 / 2;
          overlap_mask = (channel_sum c > 0 \<and> channel_sum n > 0);
          blended = c;
          blended = (if overlap_mask then mix_pixel alpha c n else blended);
          only_new_mask = (channel_sum c = 0 \<and> channel_sum n > 0);
          blended = (if only_new_mask then n else blended)
      in blended)"

text \<open>\<^verbatim>\<open>blend_regions\<close>: with regions of different shapes the masks or the masked
  indexing raise.\<close>

definition blend_regions :: "image \<Rightarrow> image \<Rightarrow> py_error + image" where
  "blend_regions canvas_region new_region =
     (if rows canvas_region \<noteq> rows new_region \<or> cols canvas_region \<noteq> cols new_region
      then Inl ValueError
      else Inr \<lparr>rows = rows canvas_region, cols = cols canvas_region,
                px = (\<lambda>i j. blend_pixel (px canvas_region i j) (px new_region i j))\<rparr>)"

text \<open>The 50/50 average of two pixels in the words of the specification: per channel,
  half the sum, the fraction dropped.\<close>

definition half_half :: "pixel \<Rightarrow> pixel \<Rightarrow> pixel" where
  "half_half c n =
     (case (c, n) of ((cb, cg, cr), (nb, ng, nr)) \<Rightarrow>
        (word_of_nat ((unat cb + unat nb) div 2), word_of_nat ((unat cg + unat ng) div 2),
         word_of_nat ((unat cr + unat nr) div 2)))"

definition black :: pixel where
  "black = (0, 0, 0)"

text \<open>Three regions of one row: a destination with a present, a present and an absent
  pixel; a tile with a present, an absent and a present pixel; an all-zero destination.\<close>

definition region_a :: image where
  "region_a = \<lparr>rows = 1, cols = 3,
     px = (\<lambda>i j. if j = 0 then (10, 20, 30) else if j = 1 then (0, 0, 7) else black)\<rparr>"

definition region_b :: image where
  "region_b = \<lparr>rows = 1, cols = 3,
     px = (\<lambda>i j. if j = 0 then (21, 0, 255) else if j = 1 then black else (1, 2, 3))\<rparr>"

definition region_zero :: image where
  "region_zero = \<lparr>rows = 1, cols = 3, px = (\<lambda>i j. black)\<rparr>"

text \<open>A numpy slice \<^verbatim>\<open>a:b\<close> on an axis of length \<open>n\<close>: a negative bound counts from the
  end, both bounds are clipped to the axis, and the slice is empty when they cross.\<close>

definition slice_bound :: "nat \<Rightarrow> int \<Rightarrow> nat" where
  "slice_bound n i = nat (if i < 0 then max (i + int n) 0 else min i (int n))"

definition np_slice :: "nat \<Rightarrow> int \<Rightarrow> int \<Rightarrow> nat \<times> nat" where
  "np_slice n a b = (slice_bound n a, max (slice_bound n a) (slice_bound n b))"

text \<open>Reading \<^verbatim>\<open>canvas[y0:y1, x0:x1]\<close>.\<close>

definition get_region :: "image \<Rightarrow> int \<Rightarrow> int \<Rightarrow> int \<Rightarrow> int \<Rightarrow> image" where
  "get_region a y0 y1 x0 x1 =
     (let (ylo, yhi) = np_slice (rows a) y0 y1;
          (xlo, xhi) = np_slice (cols a) x0 x1
      in \<lparr>rows = yhi - ylo, cols = xhi - xlo, px = (\<lambda>i j. px a (ylo + i) (xlo + j))\<rparr>)"

text \<open>Writing \<^verbatim>\<open>canvas[y0:y1, x0:x1] = src\<close>: the source must have the shape of the
  slice, a dimension of length one being broadcast; otherwise numpy raises ValueError.\<close>

definition set_region :: "image \<Rightarrow> int \<Rightarrow> int \<Rightarrow> int \<Rightarrow> int \<Rightarrow> image \<Rightarrow> py_error + image" where
  "set_region a y0 y1 x0 x1 src =
     (let (ylo, yhi) = np_slice (rows a) y0 y1;
          (xlo, xhi) = np_slice (cols a) x0 x1
      in if (rows src = yhi - ylo \<or> rows src = 1) \<and> (cols src = xhi - xlo \<or> cols src = 1)
         then Inr (a\<lparr>px := (\<lambda>r c.
                if ylo \<le> r \<and> r < yhi \<and> xlo \<le> c \<and> c < xhi
                then px src (if rows src = 1 then 0 else r - ylo)
                            (if cols src = 1 then 0 else c - xlo)
                else px a r c)\<rparr>)
         else Inl ValueError)"

text \<open>\<^verbatim>\<open>np.median\<close> of a non-empty list and Python's \<^verbatim>\<open>round\<close> (to the nearest
  integer, a tie to the even one). Coordinates are floating-point numbers in the source
  and real numbers here.\<close>

definition np_median :: "real list \<Rightarrow> real" where
  "np_median xs =
     (let s = sort xs; n = length s
      in if odd n then s ! (n div 2) else (s ! (n div 2 - 1) + s ! (n div 2)) / 2)"

definition py_round :: "real \<Rightarrow> int" where
  "py_round x =
     (let f = \<lfloor>x\<rfloor>; d = x - of_int f
      in if d < 1 / 2 then f else if 1 / 2 < d then f + 1
         else if even f then f else f + 1)"

text \<open>A match of \<^verbatim>\<open>cv2.BFMatcher\<close> and the keypoints and descriptors of a tile.\<close>

record dmatch =
  queryIdx :: nat
  trainIdx :: nat
  distance :: real

type_synonym keypoints = "(real \<times> real) list"
type_synonym descriptors = "8 word list list"

text \<open>What the stitching loop takes from the queue and gets from OpenCV for it: the
  cropped frame, and the keypoints and descriptors of \<^verbatim>\<open>detectAndCompute\<close> (no
  descriptors when the frame has no feature), or nothing when OpenCV raises.\<close>

record tile =
  frame_cropped :: image
  detected :: "(keypoints \<times> descriptors option) option"

record mosaic =
  canvas :: image
  canvas_height :: int
  canvas_width :: int
  crop_top :: int
  crop_bottom :: int
  crop_left :: int
  crop_right :: int
  pos_x :: int
  pos_y :: int
  first_frame_init :: bool
  kp_last :: "keypoints option"
  des_last :: "descriptors option"
  pos_last :: "(int \<times> int) option"


text \<open>The list \<^verbatim>\<open>offsets\<close>: previous keypoint minus current keypoint for each match; an
  index outside a keypoint list raises IndexError.\<close>

fun offsets_of :: "keypoints \<Rightarrow> keypoints \<Rightarrow> dmatch list \<Rightarrow> py_error + (real \<times> real) list" where
  "offsets_of kp_curr kp_prev [] = Inr []"
| "offsets_of kp_curr kp_prev (m # ms) =
     (if queryIdx m < length kp_curr \<and> trainIdx m < length kp_prev
      then (let pt_curr = kp_curr ! queryIdx m;
                pt_last = kp_prev ! trainIdx m
            in case offsets_of kp_curr kp_prev ms of
                 Inl e \<Rightarrow> Inl e
               | Inr offsets \<Rightarrow>
                   Inr ((fst pt_last - fst pt_curr, snd pt_last - snd pt_curr) # offsets))
      else Inl IndexError)"

text \<open>The estimate \<open>(dx, dy)\<close> from the offsets.\<close>

definition estimate :: "(real \<times> real) list \<Rightarrow> int \<times> int" where
  "estimate offsets =
     (py_round (np_median (map fst offsets)), py_round (np_median (map snd offsets)))"

text \<open>
  The body of the \<^verbatim>\<open>try\<close> block of \<^verbatim>\<open>stitch_frames\<close> for one frame. \<open>bf_match\<close> is
  \<^verbatim>\<open>self.bf.match\<close>, given from outside. \<^verbatim>\<open>cv2.cvtColor\<close> raises on an empty frame.
\<close>

definition stitch_body ::
  "(descriptors \<Rightarrow> descriptors \<Rightarrow> py_error + dmatch list) \<Rightarrow> mosaic \<Rightarrow> tile \<Rightarrow> py_error + mosaic"
  where
  "stitch_body bf_match s t =
     (let height = int (rows (frame_cropped t));
          width = int (cols (frame_cropped t))
      in if height = 0 \<or> width = 0 then Inl CvError
         else case detected t of
           None \<Rightarrow> Inl CvError
         | Some (kp_curr, des_curr) \<Rightarrow>
             if \<not> first_frame_init s
             then (case set_region (canvas s) (pos_y s) (pos_y s + height)
                          (pos_x s) (pos_x s + width) (frame_cropped t) of
                     Inl e \<Rightarrow> Inl e
                   | Inr canvas1 \<Rightarrow>
                       Inr (s\<lparr>canvas := canvas1, kp_last := Some kp_curr,
                              des_last := des_curr, pos_last := Some (pos_x s, pos_y s),
                              first_frame_init := True\<rparr>))
             else (case (des_last s, des_curr) of
                     (Some des_prev, Some des) \<Rightarrow>
                       (case bf_match des des_prev of
                          Inl e \<Rightarrow> Inl e
                        | Inr found \<Rightarrow>
                            (let matches = sort_key distance found
                             in if 10 \<le> length matches
                                then (case (kp_last s, pos_last s) of
                                        (Some kp_prev, Some (last_x, last_y)) \<Rightarrow>
                                          (case offsets_of kp_curr kp_prev matches of
                                             Inl e \<Rightarrow> Inl e
                                           | Inr offsets \<Rightarrow>
                                               (let (dx, dy) = estimate offsets;
                                                    pos_x_new = last_x + dx;
                                                    pos_y_new = last_y + dy;
                                                    pos_x_new = max 0 (min pos_x_new (canvas_width s - width));
                                                    pos_y_new = max 0 (min pos_y_new (canvas_height s - height));
                                                    canvas_region = get_region (canvas s) pos_y_new
                                                      (pos_y_new + height) pos_x_new (pos_x_new + width)
                                                in case blend_regions canvas_region (frame_cropped t) of
                                                     Inl e \<Rightarrow> Inl e
                                                   | Inr blended_region \<Rightarrow>
                                                       (case set_region (canvas s) pos_y_new
                                                               (pos_y_new + height) pos_x_new
                                                               (pos_x_new + width) blended_region of
                                                          Inl e \<Rightarrow> Inl e
                                                        | Inr canvas1 \<Rightarrow>
                                                            Inr (s\<lparr>canvas := canvas1,
                                                                   kp_last := Some kp_curr,
                                                                   des_last := Some des,
                                                                   pos_last := Some (pos_x_new, pos_y_new)\<rparr>))))
                                      | _ \<Rightarrow> Inl TypeError)
                                else Inr s))
                   | _ \<Rightarrow> Inr s))"

text \<open>One pass of the loop with a frame in the queue: \<^verbatim>\<open>except Exception\<close> catches
  whatever the body raises, and the state is as the body left it; the body raises only
  before its first assignment to the state.\<close>

definition stitch_frames_step ::
  "(descriptors \<Rightarrow> descriptors \<Rightarrow> py_error + dmatch list) \<Rightarrow> mosaic \<Rightarrow> tile \<Rightarrow> mosaic" where
  "stitch_frames_step bf_match s t =
     (case stitch_body bf_match s t of Inl e \<Rightarrow> s | Inr s' \<Rightarrow> s')"



section \<open>Target tracker: click selection\<close>

text \<open>
  A contour with the three moments that \<^verbatim>\<open>cv2.moments\<close> gives for it. The distance is
  \<^verbatim>\<open>np.sqrt\<close> of an integer, read as the real square root; \<^verbatim>\<open>float('inf')\<close> is
  \<open>None\<close>.
\<close>

record contour =
  points :: "(int \<times> int) list"
  m00 :: real
  m10 :: real
  m01 :: real

definition py_int :: "real \<Rightarrow> int" where
  "py_int x = (if 0 \<le> x then \<lfloor>x\<rfloor> else \<lceil>x\<rceil>)"

definition centroid :: "contour \<Rightarrow> int \<times> int" where
  "centroid cnt = (py_int (m10 cnt / m00 cnt), py_int (m01 cnt / m00 cnt))"

definition distance_to :: "int \<times> int \<Rightarrow> contour \<Rightarrow> real" where
  "distance_to target_point cnt =
     (case centroid cnt of (cx, cy) \<Rightarrow>
        sqrt (real_of_int ((cx - fst target_point)\<^sup>2 + (cy - snd target_point)\<^sup>2)))"

definition below :: "real \<Rightarrow> real option \<Rightarrow> bool" where
  "below d m = (case m of None \<Rightarrow> True | Some v \<Rightarrow> d < v)"

type_synonym nearest = "contour option \<times> real option \<times> (int \<times> int) option"

fun nearest_loop :: "int \<times> int \<Rightarrow> contour list \<Rightarrow> nearest \<Rightarrow> nearest" where
  "nearest_loop target_point [] acc = acc"
| "nearest_loop target_point (cnt # rest) (nearest_contour, min_distance, nearest_centroid) =
     (if m00 cnt = 0
      then nearest_loop target_point rest (nearest_contour, min_distance, nearest_centroid)
      else if below (distance_to target_point cnt) min_distance
      then nearest_loop target_point rest
             (Some cnt, Some (distance_to target_point cnt), Some (centroid cnt))
      else nearest_loop target_point rest (nearest_contour, min_distance, nearest_centroid))"

definition find_nearest_contour :: "contour list \<Rightarrow> int \<times> int \<Rightarrow> nearest" where
  "find_nearest_contour contours target_point =
     (if contours = [] then (None, None, None)
      else nearest_loop target_point contours (None, None, None))"

text \<open>The tracking state of \<^verbatim>\<open>VisualServoTracker\<close>; \<^verbatim>\<open>target_history\<close> is a deque of at
  most 50 positions.\<close>

record tracker =
  tracking_active :: bool
  target_position :: "(int \<times> int) option"
  target_history :: "(int \<times> int) list"
  selected_contour :: "contour option"
  click_position :: "(int \<times> int) option"
  awaiting_selection :: bool

definition handle_click_selection :: "tracker \<Rightarrow> contour list \<Rightarrow> tracker" where
  "handle_click_selection s contours =
     (case click_position s of
        None \<Rightarrow> s
      | Some click \<Rightarrow>
          if \<not> awaiting_selection s then s
          else
            (let (nearest_cnt, dist, cen) = find_nearest_contour contours click;
                 s1 = (case (nearest_cnt, dist, cen) of
                         (Some cnt, Some d, Some c) \<Rightarrow>
                           if d < 100
                           then s\<lparr>tracking_active := True, target_position := Some c,
                                  selected_contour := Some cnt, target_history := [c]\<rparr>
                           else s
                       | _ \<Rightarrow> s)
             in s1\<lparr>awaiting_selection := False, click_position := None\<rparr>))"


text \<open>A connected stage at the origin, not homed, with the interval of the source.\<close>

definition connected_stage :: stage where
  "connected_stage =
     \<lparr>arduino_connected = True, arduino = True, home_set = False, abs_x = 0, abs_y = 0,
      status_var = [], pos_label = (0, 0), wire = [],
      last_motor_command_time = 0, MOTOR_COMMAND_INTERVAL = 3\<rparr>"




text \<open>
  Example states of the mosaic builder. A tracking state on an 8 by 8 canvas with the last
  placement at (6, 6); a 2 by 2 tile with one keypoint and one descriptor; matchers that
  return one match and ten matches. The crop of \<open>small_mosaic\<close> is 2 by 2 at (1, 1).
\<close>

definition small_mosaic :: mosaic where
  "small_mosaic =
     \<lparr>canvas = \<lparr>rows = 8, cols = 8, px = (\<lambda>i j. black)\<rparr>,
      canvas_height = 8, canvas_width = 8,
      crop_top = 1, crop_bottom = 3, crop_left = 1, crop_right = 3,
      pos_x = 3, pos_y = 1, first_frame_init = True,
      kp_last = Some [(1, 1)], des_last = Some [[1]], pos_last = Some (6, 6)\<rparr>"

definition small_tile :: tile where
  "small_tile = \<lparr>frame_cropped = \<lparr>rows = 2, cols = 2, px = (\<lambda>i j. (1, 1, 1))\<rparr>,
                 detected = Some ([(0, 0)], Some [[1]])\<rparr>"

definition one_match :: "descriptors \<Rightarrow> descriptors \<Rightarrow> py_error + dmatch list" where
  "one_match des des_prev = Inr [\<lparr>queryIdx = 0, trainIdx = 0, distance = 0\<rparr>]"





text \<open>
  The click selection inside \<^verbatim>\<open>simple_tracking_loop\<close> (main_control.py), on the same
  tracking attributes of \<^verbatim>\<open>MicroscopeStitcher\<close>; a lock also resets the motor state.
\<close>

record loop_tracker = tracker +
  motor_command_time :: real
  motor_stop_sent :: bool

definition loop_click_selection :: "loop_tracker \<Rightarrow> contour list \<Rightarrow> loop_tracker" where
  "loop_click_selection s valid_contours =
     (case click_position s of
        None \<Rightarrow> s
      | Some click \<Rightarrow>
          if \<not> awaiting_selection s then s
          else
            (let (nearest_cnt, dist, cen) = find_nearest_contour valid_contours click;
                 s1 = (case (nearest_cnt, dist, cen) of
                         (Some cnt, Some d, Some c) \<Rightarrow>
                           if d < 100
                           then s\<lparr>tracking_active := True, target_position := Some c,
                                  selected_contour := Some cnt, target_history := [c],
                                  motor_command_time := 0, motor_stop_sent := False\<rparr>
                           else s
                       | _ \<Rightarrow> s)
             in s1\<lparr>awaiting_selection := False, click_position := None\<rparr>))"

text \<open>What the loop of \<^verbatim>\<open>find_nearest_contour\<close> holds after the contours of a set: nothing
  when none of them has a non-zero area, and otherwise one of them that has, with its
  distance and centroid, no other being nearer.\<close>

definition nearest_among :: "int \<times> int \<Rightarrow> contour set \<Rightarrow> nearest \<Rightarrow> bool" where
  "nearest_among target_point cs acc =
     ((acc = (None, None, None) \<and> (\<forall>c \<in> cs. m00 c = 0)) \<or>
      (\<exists>c \<in> cs. m00 c \<noteq> 0 \<and>
         acc = (Some c, Some (distance_to target_point c), Some (centroid c)) \<and>
         (\<forall>c' \<in> cs. m00 c' \<noteq> 0 \<longrightarrow>
            distance_to target_point c \<le> distance_to target_point c')))"

text \<open>An unlocked tracker that awaits a selection for a click at (13, 24), a contour with
  centroid (10, 20) and a contour with centroid (500, 500).\<close>

definition clicked_tracker :: tracker where
  "clicked_tracker =
     \<lparr>tracking_active = False, target_position = None, target_history = [],
      selected_contour = None, click_position = Some (13, 24), awaiting_selection = True\<rparr>"

definition clicked_loop_tracker :: loop_tracker where
  "clicked_loop_tracker =
     \<lparr>tracking_active = False, target_position = None, target_history = [],
      selected_contour = None, click_position = Some (13, 24), awaiting_selection = True,
      motor_command_time = 7, motor_stop_sent = True\<rparr>"

definition near_contour :: contour where
  "near_contour = \<lparr>points = [(9, 19), (11, 19), (11, 21), (9, 21)], m00 = 4, m10 = 40, m01 = 80\<rparr>"

definition far_contour :: contour where
  "far_contour =
     \<lparr>points = [(499, 499), (501, 499), (501, 501), (499, 501)], m00 = 4, m10 = 2000, m01 = 2000\<rparr>"


section \<open>Theorems: scan planner\<close>

lemma row_loop_replicate:
  "row_loop k g p = p @ replicate k (if g then (''S'', ''R'') else (''S'', ''L''))"
proof (induction k arbitrary: p)
  case 0
  show ?case by simp
next
  case (Suc k)
  show ?case by (simp add: Suc.IH replicate_app_Cons_same)
qed

lemma rows_loop_boustrophedon:
  "i \<le> nat R \<Longrightarrow>
   rows_loop R S [i ..< nat R] (even i) p =
   p @ concat (map (boustrophedon_row R S) [i ..< nat R])"
proof (induction "nat R - i" arbitrary: i p)
  case 0
  then show ?case by simp
next
  case (Suc d)
  then have lt: "i < nat R" by linarith
  have split: "[i ..< nat R] = i # [Suc i ..< nat R]"
    using lt by (simp add: upt_conv_Cons)
  show ?case
  proof (cases "int i < R - 1")
    case True
    then have le: "Suc i \<le> nat R" by linarith
    have d: "d = nat R - Suc i" using Suc.hyps(2) by linarith
    have ih: "rows_loop R S [Suc i ..< nat R] (even (Suc i)) q =
              q @ concat (map (boustrophedon_row R S) [Suc i ..< nat R])" for q
      using Suc.hyps(1) [OF d le] .
    show ?thesis
      using True ih
      by (simp add: split row_loop_replicate boustrophedon_row_def row_direction_def Let_def)
  next
    case False
    then have e: "Suc i = nat R" using lt by linarith
    have rest: "[Suc i ..< nat R] = []" using e by simp
    show ?thesis
      using False
      by (simp add: split rest row_loop_replicate boustrophedon_row_def row_direction_def Let_def)
  qed
qed

lemma generate_is_boustrophedon:
  "generate_lawnmower_pattern R S = boustrophedon R S"
  using rows_loop_boustrophedon [of 0 R S "[]"]
  by (simp add: generate_lawnmower_pattern_def boustrophedon_def)

lemma horizontal_in_row:
  "length (filter is_horizontal (boustrophedon_row R S r)) = nat (S - 1)"
  by (simp add: boustrophedon_row_def row_direction_def is_horizontal_def)

lemma down_in_row:
  "length (filter is_down (boustrophedon_row R S r)) = (if int r < R - 1 then 1 else 0)"
  by (simp add: boustrophedon_row_def row_direction_def is_down_def)

lemma length_filter_concat:
  "length (filter P (concat xss)) = sum_list (map (\<lambda>xs. length (filter P xs)) xss)"
  by (induction xss) simp_all

lemma horizontal_count:
  "length (filter is_horizontal (boustrophedon R S)) = nat R * nat (S - 1)"
  by (simp add: boustrophedon_def length_filter_concat horizontal_in_row comp_def sum_list_triv)

lemma down_sum:
  "n \<le> nat R \<Longrightarrow>
   sum_list (map (\<lambda>r. if int r < R - 1 then 1 else 0) [0 ..< n]) = min n (nat R - 1)"
  by (induction n) auto

lemma down_count:
  "length (filter is_down (boustrophedon R S)) = nat R - 1"
  using down_sum [of "nat R" R]
  by (simp add: boustrophedon_def length_filter_concat down_in_row comp_def)

lemma horizontal_or_down:
  "m \<in> set (boustrophedon R S) \<Longrightarrow> is_horizontal m \<noteq> is_down m"
  by (auto simp: boustrophedon_def boustrophedon_row_def row_direction_def
        is_horizontal_def is_down_def split: if_splits)

text \<open>
  Claim C7. For 3 rows of 4 steps the generator returns exactly the eleven moves
  RRR D LLL D RRR. For every \<open>rows \<ge> 1\<close> and \<open>steps_per_row \<ge> 1\<close> it returns the
  boustrophedon list: per row \<open>steps_per_row - 1\<close> horizontal moves, right on even rows and
  left on odd rows, so that the direction flips after each down move, and one down move
  after every row but the last; in all \<open>rows * (steps_per_row - 1)\<close> horizontal moves
  and \<open>rows - 1\<close> down moves, and no other move.
\<close>

theorem lawnmower_generation:
  assumes "1 \<le> n_rows" and "1 \<le> n_steps"
  shows "generate_lawnmower_pattern 3 4 =
           [(''S'', ''R''), (''S'', ''R''), (''S'', ''R''), (''D'', ''S''),
            (''S'', ''L''), (''S'', ''L''), (''S'', ''L''), (''D'', ''S''),
            (''S'', ''R''), (''S'', ''R''), (''S'', ''R'')] \<and>
         generate_lawnmower_pattern n_rows n_steps = boustrophedon n_rows n_steps \<and>
         int (length (filter is_horizontal (generate_lawnmower_pattern n_rows n_steps)))
           = n_rows * (n_steps - 1) \<and>
         int (length (filter is_down (generate_lawnmower_pattern n_rows n_steps))) = n_rows - 1 \<and>
         int (length (generate_lawnmower_pattern n_rows n_steps))
           = n_rows * (n_steps - 1) + (n_rows - 1)"
proof -
  have ex: "generate_lawnmower_pattern 3 4 =
           [(''S'', ''R''), (''S'', ''R''), (''S'', ''R''), (''D'', ''S''),
            (''S'', ''L''), (''S'', ''L''), (''S'', ''L''), (''D'', ''S''),
            (''S'', ''R''), (''S'', ''R''), (''S'', ''R'')]"
    by code_simp
  have h: "int (length (filter is_horizontal (boustrophedon n_rows n_steps))) = n_rows * (n_steps - 1)"
    using assms by (simp add: horizontal_count)
  have d: "int (length (filter is_down (boustrophedon n_rows n_steps))) = n_rows - 1"
    using assms by (simp add: down_count)
  have part: "length (boustrophedon n_rows n_steps) =
      length (filter is_horizontal (boustrophedon n_rows n_steps)) +
      length (filter is_down (boustrophedon n_rows n_steps))"
  proof -
    have "filter (\<lambda>m. \<not> is_horizontal m) (boustrophedon n_rows n_steps) =
          filter is_down (boustrophedon n_rows n_steps)"
      by (rule filter_cong) (use horizontal_or_down in auto)
    then show ?thesis
      using sum_length_filter_compl [of is_horizontal "boustrophedon n_rows n_steps"] by simp
  qed
  have l: "int (length (boustrophedon n_rows n_steps)) = n_rows * (n_steps - 1) + (n_rows - 1)"
    using part h d by linarith
  show ?thesis
    using ex h d l by (simp add: generate_is_boustrophedon)
qed

theorem lawnmower_generation_witness:
  "(1::int) \<le> 2 \<and> (1::int) \<le> 3 \<and>
   generate_lawnmower_pattern 2 3 =
     [(''S'', ''R''), (''S'', ''R''), (''D'', ''S''), (''S'', ''L''), (''S'', ''L'')] \<and>
   generate_lawnmower_pattern 2 3 = boustrophedon 2 3 \<and>
   int (length (filter is_horizontal (generate_lawnmower_pattern 2 3))) = 2 * (3 - 1) \<and>
   int (length (filter is_down (generate_lawnmower_pattern 2 3))) = 2 - 1 \<and>
   int (length (generate_lawnmower_pattern 2 3)) = 2 * (3 - 1) + (2 - 1)"
proof -
  have a: "(1::int) \<le> 2" and b: "(1::int) \<le> 3" by simp_all
  note t = lawnmower_generation [OF a b]
  have v: "generate_lawnmower_pattern 2 3 =
     [(''S'', ''R''), (''S'', ''R''), (''D'', ''S''), (''S'', ''L''), (''S'', ''L'')]"
    by code_simp
  show ?thesis
    using a b v t by blast
qed


section \<open>Theorems: position ledger\<close>

lemma send_step_keeps_nonneg:
  "home_set s \<Longrightarrow> 0 \<le> abs_x s \<Longrightarrow> 0 \<le> abs_y s \<Longrightarrow>
   home_set (snd (send_step s ev y x)) \<and> 0 \<le> abs_x (snd (send_step s ev y x)) \<and>
   0 \<le> abs_y (snd (send_step s ev y x))"
  by (cases ev) (auto simp: send_step_def prospective_def Let_def split: prod.splits)

lemma send_steps_keep_nonneg:
  "home_set s \<Longrightarrow> 0 \<le> abs_x s \<Longrightarrow> 0 \<le> abs_y s \<Longrightarrow>
   home_set (send_steps s calls) \<and> 0 \<le> abs_x (send_steps s calls) \<and>
   0 \<le> abs_y (send_steps s calls)"
proof (induction calls arbitrary: s)
  case Nil
  then show ?case by simp
next
  case (Cons c calls)
  obtain ev y x where c: "c = (ev, y, x)" by (cases c)
  show ?case
    unfolding c send_steps.simps
    by (rule Cons.IH) (use send_step_keeps_nonneg [OF Cons.prems] in auto)
qed

lemma send_step_rejects:
  "home_set s \<Longrightarrow> fst (prospective s y x) < 0 \<or> snd (prospective s y x) < 0 \<Longrightarrow>
   fst (send_step s ev y x) = False \<and> abs_x (snd (send_step s ev y x)) = abs_x s \<and>
   abs_y (snd (send_step s ev y x)) = abs_y s \<and> wire (snd (send_step s ev y x)) = wire s"
  by (auto simp: send_step_def Let_def split: prod.splits)

text \<open>
  Claim C1. When the write to the serial link raises, \<^verbatim>\<open>send_step\<close> returns False and
  leaves the ledger (\<open>abs_x\<close>, \<open>abs_y\<close>, the homed flag) as it was, with nothing on the
  wire. The ledger changes in a call only when the transmission went through (the call
  returns True and the command line is on the wire), and a call that returns True has
  moved the ledger to the prospective position.
\<close>

theorem send_step_rollback:
  "fst (send_step s (WriteRaises e) y_cmd x_cmd) = False \<and>
   abs_x (snd (send_step s (WriteRaises e) y_cmd x_cmd)) = abs_x s \<and>
   abs_y (snd (send_step s (WriteRaises e) y_cmd x_cmd)) = abs_y s \<and>
   home_set (snd (send_step s (WriteRaises e) y_cmd x_cmd)) = home_set s \<and>
   wire (snd (send_step s (WriteRaises e) y_cmd x_cmd)) = wire s \<and>
   ((abs_x (snd (send_step s ev y_cmd x_cmd)), abs_y (snd (send_step s ev y_cmd x_cmd)))
       \<noteq> (abs_x s, abs_y s) \<longrightarrow>
      (\<exists>r. ev = Delivered r) \<and> fst (send_step s ev y_cmd x_cmd) \<and>
      wire (snd (send_step s ev y_cmd x_cmd)) = wire s @ [y_cmd @ x_cmd @ [CHR 0x0A]]) \<and>
   (fst (send_step s ev y_cmd x_cmd) \<longrightarrow>
      (\<exists>r. ev = Delivered r) \<and>
      wire (snd (send_step s ev y_cmd x_cmd)) = wire s @ [y_cmd @ x_cmd @ [CHR 0x0A]] \<and>
      (abs_x (snd (send_step s ev y_cmd x_cmd)), abs_y (snd (send_step s ev y_cmd x_cmd)))
        = prospective s y_cmd x_cmd)"
  by (cases ev) (auto simp: send_step_def Let_def split: prod.splits)

theorem send_step_rollback_witness:
  "fst (send_step connected_stage (Delivered None) ''U'' ''S'') \<and>
   (abs_x (snd (send_step connected_stage (Delivered None) ''U'' ''S'')),
    abs_y (snd (send_step connected_stage (Delivered None) ''U'' ''S'')))
     \<noteq> (abs_x connected_stage, abs_y connected_stage) \<and>
   wire (snd (send_step connected_stage (Delivered None) ''U'' ''S'')) = [''US'' @ [CHR 0x0A]] \<and>
   abs_y (snd (send_step connected_stage (Delivered None) ''U'' ''S'')) = 1 \<and>
   fst (send_step connected_stage (WriteRaises ''fake write error'') ''U'' ''S'') = False \<and>
   abs_y (snd (send_step connected_stage (WriteRaises ''fake write error'') ''U'' ''S'')) = 0"
  using send_step_rollback [of connected_stage "''fake write error''" "''U''" "''S''" "Delivered None"]
  by (simp add: send_step_def prospective_def connected_stage_def)

text \<open>
  Claim C2. Once \<^verbatim>\<open>set_home\<close> has set the ledger to (0, 0) and the homed flag (it does so
  with a connected link), every sequence of \<^verbatim>\<open>send_step\<close> calls keeps both coordinates
  non-negative, whatever the link does. A call from a homed state whose prospective
  position is negative on either axis returns False, transmits nothing and leaves the
  ledger as it was; in particular \<^verbatim>\<open>send_step('D', 'S')\<close> right after homing.
\<close>

theorem homed_nonnegative:
  assumes "arduino_connected s" and "arduino s"
  shows "abs_x (set_home s) = 0 \<and> abs_y (set_home s) = 0 \<and> home_set (set_home s) \<and>
         0 \<le> abs_x (send_steps (set_home s) calls) \<and>
         0 \<le> abs_y (send_steps (set_home s) calls) \<and>
         (home_set t \<and> (fst (prospective t y x) < 0 \<or> snd (prospective t y x) < 0) \<longrightarrow>
            fst (send_step t ev y x) = False \<and>
            abs_x (snd (send_step t ev y x)) = abs_x t \<and>
            abs_y (snd (send_step t ev y x)) = abs_y t \<and>
            wire (snd (send_step t ev y x)) = wire t) \<and>
         fst (send_step (set_home s) ev ''D'' ''S'') = False \<and>
         abs_x (snd (send_step (set_home s) ev ''D'' ''S'')) = 0 \<and>
         abs_y (snd (send_step (set_home s) ev ''D'' ''S'')) = 0 \<and>
         wire (snd (send_step (set_home s) ev ''D'' ''S'')) = wire s"
proof -
  have h: "abs_x (set_home s) = 0 \<and> abs_y (set_home s) = 0 \<and> home_set (set_home s) \<and>
           wire (set_home s) = wire s"
    using assms by (simp add: set_home_def)
  have inv: "0 \<le> abs_x (send_steps (set_home s) calls) \<and>
             0 \<le> abs_y (send_steps (set_home s) calls)"
    using send_steps_keep_nonneg [of "set_home s" calls] h by simp
  have p: "snd (prospective (set_home s) ''D'' ''S'') < 0"
    using h by (simp add: prospective_def)
  have down: "fst (send_step (set_home s) ev ''D'' ''S'') = False \<and>
         abs_x (snd (send_step (set_home s) ev ''D'' ''S'')) = 0 \<and>
         abs_y (snd (send_step (set_home s) ev ''D'' ''S'')) = 0 \<and>
         wire (snd (send_step (set_home s) ev ''D'' ''S'')) = wire s"
    using send_step_rejects [of "set_home s" "''D''" "''S''" ev] h p by simp
  have rej: "home_set t \<and> (fst (prospective t y x) < 0 \<or> snd (prospective t y x) < 0) \<longrightarrow>
            fst (send_step t ev y x) = False \<and>
            abs_x (snd (send_step t ev y x)) = abs_x t \<and>
            abs_y (snd (send_step t ev y x)) = abs_y t \<and>
            wire (snd (send_step t ev y x)) = wire t"
    using send_step_rejects [of t y x ev] by blast
  show ?thesis
    using h inv down rej by blast
qed

theorem homed_nonnegative_witness:
  "arduino_connected connected_stage \<and> arduino connected_stage \<and>
   home_set (set_home connected_stage) \<and>
   fst (prospective (set_home connected_stage) ''S'' ''R'') < 0 \<and>
   fst (send_step (set_home connected_stage) (Delivered None) ''S'' ''R'') = False \<and>
   fst (send_step (set_home connected_stage) (Delivered None) ''D'' ''S'') = False \<and>
   abs_y (snd (send_step (set_home connected_stage) (Delivered None) ''D'' ''S'')) = 0 \<and>
   abs_x (send_steps (set_home connected_stage)
            [(Delivered None, ''S'', ''L''), (Delivered None, ''D'', ''S''),
             (Delivered None, ''S'', ''R''), (Delivered None, ''S'', ''R'')]) = 0"
proof -
  have c: "arduino_connected connected_stage" "arduino connected_stage"
    by (simp_all add: connected_stage_def)
  have v: "abs_x (send_steps (set_home connected_stage)
            [(Delivered None, ''S'', ''L''), (Delivered None, ''D'', ''S''),
             (Delivered None, ''S'', ''R''), (Delivered None, ''S'', ''R'')]) = 0"
    by (simp add: send_step_def prospective_def set_home_def connected_stage_def)
  have p: "home_set (set_home connected_stage) \<and>
           fst (prospective (set_home connected_stage) ''S'' ''R'') < 0"
    by (simp add: prospective_def set_home_def connected_stage_def)
  show ?thesis
    using homed_nonnegative [OF c, of "[]" "set_home connected_stage" "''S''" "''R''" "Delivered None"]
      c v p by simp
qed


section \<open>Theorems: rate limit of the dispatch\<close>








section \<open>Theorems: blending\<close>

lemma floor_half_sum:
  "\<lfloor>1 / 2 * real a + (1 - 1 / 2) * real b\<rfloor> = int ((a + b) div 2)"
proof -
  have "1 / 2 * real a + (1 - 1 / 2) * real b = real (a + b) / real 2"
    by simp
  then show ?thesis
    by (simp only: floor_divide_of_nat_eq)
qed

lemma mix_channel_half:
  "mix_channel (1 / 2) c n = word_of_nat ((unat c + unat n) div 2)"
  unfolding mix_channel_def floor_half_sum by simp

lemma mix_pixel_half: "mix_pixel (1 / 2) c n = half_half c n"
  by (simp add: mix_pixel_def half_half_def mix_channel_half split: prod.splits)

lemma channel_sum_zero: "channel_sum p = 0 \<longleftrightarrow> p = black"
  by (cases p) (auto simp: channel_sum_def black_def unat_eq_0)

lemma blend_pixel_cases:
  "blend_pixel c n =
     (if channel_sum n = 0 then c
      else if channel_sum c = 0 then n else half_half c n)"
  by (auto simp: blend_pixel_def Let_def mix_pixel_half)

text \<open>
  Claim C5. For regions of one shape \<^verbatim>\<open>blend_regions\<close> returns a region of that shape.
  On an all-zero destination the result is exactly the tile, pixel for pixel. In general,
  where destination and tile both have a positive channel sum the result is their 50/50
  average, and where only the tile has a positive channel sum the result is the tile's
  pixel.
\<close>

theorem blend_on_empty_destination:
  assumes "rows canvas_region = rows new_region"
    and "cols canvas_region = cols new_region"
  shows "case blend_regions canvas_region new_region of
           Inl e \<Rightarrow> False
         | Inr blended \<Rightarrow>
             rows blended = rows new_region \<and> cols blended = cols new_region \<and>
             ((\<forall>i < rows canvas_region. \<forall>j < cols canvas_region.
                  px canvas_region i j = black) \<longrightarrow>
              (\<forall>i < rows new_region. \<forall>j < cols new_region.
                  px blended i j = px new_region i j)) \<and>
             (\<forall>i j. 0 < channel_sum (px canvas_region i j) \<and>
                    0 < channel_sum (px new_region i j) \<longrightarrow>
                    px blended i j = half_half (px canvas_region i j) (px new_region i j)) \<and>
             (\<forall>i j. channel_sum (px canvas_region i j) = 0 \<and>
                    0 < channel_sum (px new_region i j) \<longrightarrow>
                    px blended i j = px new_region i j)"
proof -
  have zero: "blend_pixel black n = n" for n
    using channel_sum_zero [of n] channel_sum_zero [of black]
    by (simp add: blend_pixel_cases)
  show ?thesis
    using assms by (simp add: blend_regions_def zero) (simp add: blend_pixel_cases)
qed

theorem blend_on_empty_destination_witness:
  "rows region_zero = rows region_b \<and> cols region_zero = cols region_b \<and>
   rows region_zero = 1 \<and> cols region_zero = 3 \<and>
   px region_zero 0 0 = black \<and> px region_zero 0 1 = black \<and> px region_zero 0 2 = black \<and>
   (case blend_regions region_zero region_b of
      Inl e \<Rightarrow> False
    | Inr blended \<Rightarrow> px blended 0 0 = (21, 0, 255) \<and> px blended 0 1 = black \<and>
                     px blended 0 2 = (1, 2, 3)) \<and>
   0 < channel_sum (px region_a 0 0) \<and> 0 < channel_sum (px region_b 0 0) \<and>
   channel_sum (px region_a 0 2) = 0 \<and> 0 < channel_sum (px region_b 0 2) \<and>
   (case blend_regions region_a region_b of
      Inl e \<Rightarrow> False
    | Inr blended \<Rightarrow> px blended 0 0 = (15, 10, 142) \<and> px blended 0 2 = (1, 2, 3))"
proof -
  have z: "rows region_zero = rows region_b" "cols region_zero = cols region_b"
    and a: "rows region_a = rows region_b" "cols region_a = cols region_b"
    by (simp_all add: region_zero_def region_a_def region_b_def)
  note tz = blend_on_empty_destination [OF z]
  note ta = blend_on_empty_destination [OF a]
  have zero: "\<forall>i < rows region_zero. \<forall>j < cols region_zero. px region_zero i j = black"
    by (simp add: region_zero_def)
  have present: "0 < channel_sum (px region_a 0 0) \<and> 0 < channel_sum (px region_b 0 0) \<and>
     channel_sum (px region_a 0 2) = 0 \<and> 0 < channel_sum (px region_b 0 2)"
    by (simp add: region_a_def region_b_def channel_sum_def black_def)
  have vb: "px region_b 0 0 = (21, 0, 255)" "px region_b 0 1 = black" "px region_b 0 2 = (1, 2, 3)"
    and dims: "rows region_b = 1" "cols region_b = 3"
    by (simp_all add: region_b_def)
  have va: "half_half (px region_a 0 0) (px region_b 0 0) = (15, 10, 142)"
    by (simp add: region_a_def region_b_def half_half_def)
  have rz: "case blend_regions region_zero region_b of
      Inl e \<Rightarrow> False
    | Inr blended \<Rightarrow> px blended 0 0 = (21, 0, 255) \<and> px blended 0 1 = black \<and>
                     px blended 0 2 = (1, 2, 3)"
    using tz zero vb dims by (auto split: sum.splits)
  have ra: "case blend_regions region_a region_b of
      Inl e \<Rightarrow> False
    | Inr blended \<Rightarrow> px blended 0 0 = (15, 10, 142) \<and> px blended 0 2 = (1, 2, 3)"
    using ta present vb va by (auto split: sum.splits)
  have shape: "rows region_zero = 1 \<and> cols region_zero = 3 \<and>
     px region_zero 0 0 = black \<and> px region_zero 0 1 = black \<and> px region_zero 0 2 = black"
    by (simp add: region_zero_def)
  show ?thesis
    using z shape present rz ra by blast
qed

text \<open>
  Claim C10. Where the tile's pixel is absent (channel sum 0) \<^verbatim>\<open>blend_regions\<close> returns
  the destination's pixel as it was, whether the destination's pixel is present or not.
\<close>

theorem blend_keeps_destination:
  assumes "rows canvas_region = rows new_region"
    and "cols canvas_region = cols new_region"
  shows "case blend_regions canvas_region new_region of
           Inl e \<Rightarrow> False
         | Inr blended \<Rightarrow>
             (\<forall>i j. channel_sum (px new_region i j) = 0 \<longrightarrow>
                    px blended i j = px canvas_region i j)"
  using assms by (simp add: blend_regions_def blend_pixel_cases)

theorem blend_keeps_destination_witness:
  "rows region_a = rows region_b \<and> cols region_a = cols region_b \<and>
   channel_sum (px region_b 0 1) = 0 \<and> 0 < channel_sum (px region_a 0 1) \<and>
   (case blend_regions region_a region_b of
      Inl e \<Rightarrow> False
    | Inr blended \<Rightarrow> px blended 0 1 = (0, 0, 7))"
proof -
  have a: "rows region_a = rows region_b" "cols region_a = cols region_b"
    by (simp_all add: region_a_def region_b_def)
  note t = blend_keeps_destination [OF a]
  have absent: "channel_sum (px region_b 0 1) = 0 \<and> 0 < channel_sum (px region_a 0 1)"
    by (simp add: region_a_def region_b_def channel_sum_def black_def)
  have v: "px region_a 0 1 = (0, 0, 7)"
    by (simp add: region_a_def)
  have r: "case blend_regions region_a region_b of
      Inl e \<Rightarrow> False
    | Inr blended \<Rightarrow> px blended 0 1 = (0, 0, 7)"
    using t absent v by (auto split: sum.splits)
  show ?thesis
    using a absent r by blast
qed


section \<open>Theorems: translation estimate\<close>














section \<open>Theorems: freezing and placement\<close>

text \<open>
  Claim C6. In the tracking state, a tile for which no descriptors were extracted, or for
  which there are no previous descriptors, or for which the matcher returns fewer than 10
  matches, leaves the whole state as it was: the canvas, the previous keypoints and
  descriptors and the previous position. The body of the step raises nothing for such a
  tile with a non-empty frame, and whatever a body raises is caught by the step, which
  then returns the state as it was.
\<close>

theorem freeze_on_insufficient_matches:
  assumes "first_frame_init s"
    and "detected t = Some (kp_curr, des_curr)"
    and "des_curr = None \<or> des_last s = None \<or>
         (\<exists>des des_prev found. des_curr = Some des \<and> des_last s = Some des_prev \<and>
            bf_match des des_prev = Inr found \<and> length found < 10)"
  shows "stitch_frames_step bf_match s t = s \<and>
         canvas (stitch_frames_step bf_match s t) = canvas s \<and>
         kp_last (stitch_frames_step bf_match s t) = kp_last s \<and>
         des_last (stitch_frames_step bf_match s t) = des_last s \<and>
         pos_last (stitch_frames_step bf_match s t) = pos_last s \<and>
         (rows (frame_cropped t) \<noteq> 0 \<and> cols (frame_cropped t) \<noteq> 0 \<longrightarrow>
            stitch_body bf_match s t = Inr s) \<and>
         (\<forall>s0 t0 e. stitch_body bf_match s0 t0 = Inl e \<longrightarrow>
            stitch_frames_step bf_match s0 t0 = s0)"
proof -
  have body: "stitch_body bf_match s t = Inr s \<or> stitch_body bf_match s t = Inl CvError"
    using assms
    by (auto simp: stitch_body_def Let_def split: option.splits)
  then have step: "stitch_frames_step bf_match s t = s"
    by (auto simp: stitch_frames_step_def)
  have ok: "rows (frame_cropped t) \<noteq> 0 \<and> cols (frame_cropped t) \<noteq> 0 \<longrightarrow>
            stitch_body bf_match s t = Inr s"
    using assms
    by (auto simp: stitch_body_def Let_def split: option.splits)
  have caught: "\<forall>s0 t0 e. stitch_body bf_match s0 t0 = Inl e \<longrightarrow>
            stitch_frames_step bf_match s0 t0 = s0"
    by (simp add: stitch_frames_step_def)
  show ?thesis
    using step ok caught by simp
qed

theorem freeze_on_insufficient_matches_witness:
  "first_frame_init small_mosaic \<and>
   detected small_tile = Some ([(0, 0)], Some [[1]]) \<and>
   des_last small_mosaic = Some [[1]] \<and>
   one_match [[1]] [[1]] = Inr [\<lparr>queryIdx = 0, trainIdx = 0, distance = 0\<rparr>] \<and>
   length [\<lparr>queryIdx = 0, trainIdx = 0, distance = (0::real)\<rparr>] < 10 \<and>
   stitch_frames_step one_match small_mosaic small_tile = small_mosaic \<and>
   pos_last (stitch_frames_step one_match small_mosaic small_tile) = Some (6, 6) \<and>
   stitch_body one_match small_mosaic small_tile = Inr small_mosaic"
proof -
  have a: "first_frame_init small_mosaic"
    by (simp add: small_mosaic_def)
  have b: "detected small_tile = Some ([(0, 0)], Some [[1]])"
    by (simp add: small_tile_def)
  have d: "des_last small_mosaic = Some [[1]]"
    and m: "one_match [[1]] [[1]] = Inr [\<lparr>queryIdx = 0, trainIdx = 0, distance = 0\<rparr>]"
    and l: "length [\<lparr>queryIdx = 0, trainIdx = 0, distance = (0::real)\<rparr>] < 10"
    by (simp_all add: small_mosaic_def one_match_def)
  have c: "Some [[1 :: 8 word]] = None \<or> des_last small_mosaic = None \<or>
         (\<exists>des des_prev found. Some [[1]] = Some des \<and> des_last small_mosaic = Some des_prev \<and>
            one_match des des_prev = Inr found \<and> length found < 10)"
    using d m l by blast
  note t = freeze_on_insufficient_matches [OF a b c]
  have p: "pos_last small_mosaic = Some (6, 6)"
    and f: "rows (frame_cropped small_tile) \<noteq> 0 \<and> cols (frame_cropped small_tile) \<noteq> 0"
    by (simp_all add: small_mosaic_def small_tile_def)
  have r: "stitch_frames_step one_match small_mosaic small_tile = small_mosaic"
    using t by blast
  have q: "pos_last (stitch_frames_step one_match small_mosaic small_tile) = Some (6, 6)"
    using t p by metis
  have o: "stitch_body one_match small_mosaic small_tile = Inr small_mosaic"
    using t f by blast
  show ?thesis
    using a b d m l r q o by blast
qed











section \<open>Theorems: click selection\<close>

lemma nearest_loop_among:
  "nearest_among p cs acc \<Longrightarrow> nearest_among p (cs \<union> set contours) (nearest_loop p contours acc)"
proof (induction contours arbitrary: cs acc)
  case Nil
  then show ?case by simp
next
  case (Cons cnt rest)
  obtain nc md cen where acc: "acc = (nc, md, cen)" by (cases acc)
  have step: "nearest_among p (insert cnt cs)
     (if m00 cnt = 0 then (nc, md, cen)
      else if below (distance_to p cnt) md
      then (Some cnt, Some (distance_to p cnt), Some (centroid cnt))
      else (nc, md, cen))"
    using Cons.prems unfolding acc nearest_among_def below_def
    by (auto split: option.splits) (fastforce+)?
  have "nearest_among p (insert cnt cs \<union> set rest)
     (nearest_loop p rest
       (if m00 cnt = 0 then (nc, md, cen)
        else if below (distance_to p cnt) md
        then (Some cnt, Some (distance_to p cnt), Some (centroid cnt))
        else (nc, md, cen)))"
    by (rule Cons.IH [OF step])
  moreover have "insert cnt cs \<union> set rest = cs \<union> set (cnt # rest)"
    by auto
  ultimately show ?case
    unfolding acc by (simp only: nearest_loop.simps if_distrib [of "nearest_loop p rest"])
qed

lemma find_nearest_among:
  "nearest_among p (set contours) (find_nearest_contour contours p)"
proof -
  have "nearest_among p {} (None, None, None)"
    by (simp add: nearest_among_def)
  from nearest_loop_among [OF this, of contours]
  show ?thesis
    by (cases contours) (simp_all add: find_nearest_contour_def nearest_among_def)
qed

lemma distance_below_100:
  "distance_to p c < 100 \<longleftrightarrow>
   (fst (centroid c) - fst p)\<^sup>2 + (snd (centroid c) - snd p)\<^sup>2 < 10000"
proof -
  obtain cx cy where c: "centroid c = (cx, cy)" by (cases "centroid c")
  let ?n = "(cx - fst p)\<^sup>2 + (cy - snd p)\<^sup>2"
  have d: "distance_to p c = sqrt (real_of_int ?n)"
    by (simp add: distance_to_def c)
  have "sqrt ((100 :: real)\<^sup>2) = 100" by simp
  moreover have "real_of_int 10000 = (100 :: real)\<^sup>2" by simp
  ultimately have h: "(100 :: real) = sqrt (real_of_int 10000)" by simp
  have "distance_to p c < 100 \<longleftrightarrow> sqrt (real_of_int ?n) < sqrt (real_of_int 10000)"
    using d h by simp
  also have "\<dots> \<longleftrightarrow> ?n < 10000"
    by (simp only: real_sqrt_less_iff of_int_less_iff)
  finally show ?thesis by (simp add: c)
qed

lemma no_candidate_outcome:
  assumes "\<forall>c \<in> set contours. m00 c \<noteq> 0 \<longrightarrow> \<not> distance_to click c < 100"
  shows "find_nearest_contour contours click = (None, None, None) \<or>
         (\<exists>c. find_nearest_contour contours click
                = (Some c, Some (distance_to click c), Some (centroid c)) \<and>
              \<not> distance_to click c < 100)"
  using find_nearest_among [of click contours] assms
  unfolding nearest_among_def by blast

lemma candidate_outcome:
  assumes "\<exists>c \<in> set contours. m00 c \<noteq> 0 \<and> distance_to click c < 100"
  shows "\<exists>c \<in> set contours. m00 c \<noteq> 0 \<and> distance_to click c < 100 \<and>
           (\<forall>c' \<in> set contours. m00 c' \<noteq> 0 \<longrightarrow> distance_to click c \<le> distance_to click c') \<and>
           find_nearest_contour contours click
             = (Some c, Some (distance_to click c), Some (centroid c))"
proof -
  obtain c0 where c0: "c0 \<in> set contours" "m00 c0 \<noteq> 0" "distance_to click c0 < 100"
    using assms by blast
  from find_nearest_among [of click contours] c0(1,2)
  obtain c where c: "c \<in> set contours" "m00 c \<noteq> 0"
    "find_nearest_contour contours click
       = (Some c, Some (distance_to click c), Some (centroid c))"
    "\<forall>c' \<in> set contours. m00 c' \<noteq> 0 \<longrightarrow> distance_to click c \<le> distance_to click c'"
    unfolding nearest_among_def by blast
  have "distance_to click c \<le> distance_to click c0"
    using c(4) c0(1,2) by blast
  then have "distance_to click c < 100"
    using c0(3) by linarith
  then show ?thesis
    using c by blast
qed

lemma handle_click_failure:
  assumes "awaiting_selection s" and "click_position s = Some click"
    and "\<forall>c \<in> set contours. m00 c \<noteq> 0 \<longrightarrow> \<not> distance_to click c < 100"
  shows "handle_click_selection s contours
           = s\<lparr>awaiting_selection := False, click_position := None\<rparr>"
  using no_candidate_outcome [OF assms(3)] assms(1,2)
  by (auto simp: handle_click_selection_def)

lemma handle_click_success:
  assumes "awaiting_selection s" and "click_position s = Some click"
    and "m00 c \<noteq> 0" and "distance_to click c < 100"
    and "find_nearest_contour contours click
           = (Some c, Some (distance_to click c), Some (centroid c))"
  shows "handle_click_selection s contours
           = s\<lparr>tracking_active := True, target_position := Some (centroid c),
               selected_contour := Some c, target_history := [centroid c],
               awaiting_selection := False, click_position := None\<rparr>"
  using assms by (simp add: handle_click_selection_def)

lemma loop_click_failure:
  assumes "awaiting_selection s" and "click_position s = Some click"
    and "\<forall>c \<in> set contours. m00 c \<noteq> 0 \<longrightarrow> \<not> distance_to click c < 100"
  shows "loop_click_selection s contours
           = s\<lparr>awaiting_selection := False, click_position := None\<rparr>"
  using no_candidate_outcome [OF assms(3)] assms(1,2)
  by (auto simp: loop_click_selection_def)

lemma loop_click_success:
  assumes "awaiting_selection s" and "click_position s = Some click"
    and "m00 c \<noteq> 0" and "distance_to click c < 100"
    and "find_nearest_contour contours click
           = (Some c, Some (distance_to click c), Some (centroid c))"
  shows "loop_click_selection s contours
           = s\<lparr>tracking_active := True, target_position := Some (centroid c),
               selected_contour := Some c, target_history := [centroid c],
               motor_command_time := 0, motor_stop_sent := False,
               awaiting_selection := False, click_position := None\<rparr>"
  using assms by (simp add: loop_click_selection_def)

text \<open>
  Claim C9. For a pending click and any list of candidate contours, in both click
  selections (\<^verbatim>\<open>VisualServoTracker.handle_click_selection\<close> and the one inside
  \<^verbatim>\<open>simple_tracking_loop\<close>): if no contour of non-zero area has its centroid less than
  100 px from the click, the selection fails and \<^verbatim>\<open>tracking_active\<close>, the target position,
  the history and the selected contour are as before, so an unlocked tracker stays
  unlocked; if there is one, the tracker locks onto a nearest such contour and the
  history is exactly its centroid. Either way the pending click is consumed.
\<close>

theorem click_selection:
  assumes "awaiting_selection s" and "click_position s = Some click"
    and "awaiting_selection l" and "click_position l = Some click"
  shows "((\<forall>c \<in> set contours. m00 c \<noteq> 0 \<longrightarrow> \<not> distance_to click c < 100) \<longrightarrow>
            tracking_active (handle_click_selection s contours) = tracking_active s \<and>
            target_position (handle_click_selection s contours) = target_position s \<and>
            target_history (handle_click_selection s contours) = target_history s \<and>
            selected_contour (handle_click_selection s contours) = selected_contour s \<and>
            tracking_active (loop_click_selection l contours) = tracking_active l \<and>
            target_position (loop_click_selection l contours) = target_position l \<and>
            target_history (loop_click_selection l contours) = target_history l \<and>
            selected_contour (loop_click_selection l contours) = selected_contour l) \<and>
         ((\<exists>c \<in> set contours. m00 c \<noteq> 0 \<and> distance_to click c < 100) \<longrightarrow>
            (\<exists>c \<in> set contours. m00 c \<noteq> 0 \<and> distance_to click c < 100 \<and>
               (\<forall>c' \<in> set contours. m00 c' \<noteq> 0 \<longrightarrow>
                  distance_to click c \<le> distance_to click c') \<and>
               tracking_active (handle_click_selection s contours) \<and>
               target_position (handle_click_selection s contours) = Some (centroid c) \<and>
               target_history (handle_click_selection s contours) = [centroid c] \<and>
               selected_contour (handle_click_selection s contours) = Some c \<and>
               tracking_active (loop_click_selection l contours) \<and>
               target_position (loop_click_selection l contours) = Some (centroid c) \<and>
               target_history (loop_click_selection l contours) = [centroid c] \<and>
               selected_contour (loop_click_selection l contours) = Some c)) \<and>
         \<not> awaiting_selection (handle_click_selection s contours) \<and>
         click_position (handle_click_selection s contours) = None \<and>
         \<not> awaiting_selection (loop_click_selection l contours) \<and>
         click_position (loop_click_selection l contours) = None"
proof -
  have fail: "(\<forall>c \<in> set contours. m00 c \<noteq> 0 \<longrightarrow> \<not> distance_to click c < 100) \<longrightarrow>
            tracking_active (handle_click_selection s contours) = tracking_active s \<and>
            target_position (handle_click_selection s contours) = target_position s \<and>
            target_history (handle_click_selection s contours) = target_history s \<and>
            selected_contour (handle_click_selection s contours) = selected_contour s \<and>
            tracking_active (loop_click_selection l contours) = tracking_active l \<and>
            target_position (loop_click_selection l contours) = target_position l \<and>
            target_history (loop_click_selection l contours) = target_history l \<and>
            selected_contour (loop_click_selection l contours) = selected_contour l"
  proof
    assume h: "\<forall>c \<in> set contours. m00 c \<noteq> 0 \<longrightarrow> \<not> distance_to click c < 100"
    show "tracking_active (handle_click_selection s contours) = tracking_active s \<and>
            target_position (handle_click_selection s contours) = target_position s \<and>
            target_history (handle_click_selection s contours) = target_history s \<and>
            selected_contour (handle_click_selection s contours) = selected_contour s \<and>
            tracking_active (loop_click_selection l contours) = tracking_active l \<and>
            target_position (loop_click_selection l contours) = target_position l \<and>
            target_history (loop_click_selection l contours) = target_history l \<and>
            selected_contour (loop_click_selection l contours) = selected_contour l"
      by (simp add: handle_click_failure [OF assms(1,2) h] loop_click_failure [OF assms(3,4) h])
  qed
  have succ: "(\<exists>c \<in> set contours. m00 c \<noteq> 0 \<and> distance_to click c < 100) \<longrightarrow>
            (\<exists>c \<in> set contours. m00 c \<noteq> 0 \<and> distance_to click c < 100 \<and>
               (\<forall>c' \<in> set contours. m00 c' \<noteq> 0 \<longrightarrow>
                  distance_to click c \<le> distance_to click c') \<and>
               tracking_active (handle_click_selection s contours) \<and>
               target_position (handle_click_selection s contours) = Some (centroid c) \<and>
               target_history (handle_click_selection s contours) = [centroid c] \<and>
               selected_contour (handle_click_selection s contours) = Some c \<and>
               tracking_active (loop_click_selection l contours) \<and>
               target_position (loop_click_selection l contours) = Some (centroid c) \<and>
               target_history (loop_click_selection l contours) = [centroid c] \<and>
               selected_contour (loop_click_selection l contours) = Some c)"
  proof
    assume "\<exists>c \<in> set contours. m00 c \<noteq> 0 \<and> distance_to click c < 100"
    from candidate_outcome [OF this]
    obtain c where c: "c \<in> set contours" "m00 c \<noteq> 0" "distance_to click c < 100"
      "\<forall>c' \<in> set contours. m00 c' \<noteq> 0 \<longrightarrow> distance_to click c \<le> distance_to click c'"
      "find_nearest_contour contours click
         = (Some c, Some (distance_to click c), Some (centroid c))"
      by blast
    have "tracking_active (handle_click_selection s contours) \<and>
               target_position (handle_click_selection s contours) = Some (centroid c) \<and>
               target_history (handle_click_selection s contours) = [centroid c] \<and>
               selected_contour (handle_click_selection s contours) = Some c \<and>
               tracking_active (loop_click_selection l contours) \<and>
               target_position (loop_click_selection l contours) = Some (centroid c) \<and>
               target_history (loop_click_selection l contours) = [centroid c] \<and>
               selected_contour (loop_click_selection l contours) = Some c"
      by (simp add: handle_click_success [OF assms(1,2) c(2,3,5)]
            loop_click_success [OF assms(3,4) c(2,3,5)])
    then show "\<exists>c \<in> set contours. m00 c \<noteq> 0 \<and> distance_to click c < 100 \<and>
               (\<forall>c' \<in> set contours. m00 c' \<noteq> 0 \<longrightarrow>
                  distance_to click c \<le> distance_to click c') \<and>
               tracking_active (handle_click_selection s contours) \<and>
               target_position (handle_click_selection s contours) = Some (centroid c) \<and>
               target_history (handle_click_selection s contours) = [centroid c] \<and>
               selected_contour (handle_click_selection s contours) = Some c \<and>
               tracking_active (loop_click_selection l contours) \<and>
               target_position (loop_click_selection l contours) = Some (centroid c) \<and>
               target_history (loop_click_selection l contours) = [centroid c] \<and>
               selected_contour (loop_click_selection l contours) = Some c"
      using c(1-4) by blast
  qed
  have consumed: "\<not> awaiting_selection (handle_click_selection s contours) \<and>
         click_position (handle_click_selection s contours) = None \<and>
         \<not> awaiting_selection (loop_click_selection l contours) \<and>
         click_position (loop_click_selection l contours) = None"
    using assms
    by (simp add: handle_click_selection_def loop_click_selection_def split: prod.splits)
  show ?thesis
    using fail succ consumed by blast
qed

theorem click_selection_witness:
  "awaiting_selection clicked_tracker \<and> click_position clicked_tracker = Some (13, 24) \<and>
   awaiting_selection clicked_loop_tracker \<and>
   click_position clicked_loop_tracker = Some (13, 24) \<and>
   m00 near_contour \<noteq> 0 \<and> distance_to (13, 24) near_contour < 100 \<and>
   m00 far_contour \<noteq> 0 \<and> \<not> distance_to (13, 24) far_contour < 100 \<and>
   \<not> tracking_active (handle_click_selection clicked_tracker [far_contour]) \<and>
   target_history (handle_click_selection clicked_tracker [far_contour]) = [] \<and>
   \<not> tracking_active (loop_click_selection clicked_loop_tracker [far_contour]) \<and>
   tracking_active (handle_click_selection clicked_tracker [far_contour, near_contour]) \<and>
   target_history (handle_click_selection clicked_tracker [far_contour, near_contour])
     = [(10, 20)] \<and>
   tracking_active (loop_click_selection clicked_loop_tracker [far_contour, near_contour]) \<and>
   target_history (loop_click_selection clicked_loop_tracker [far_contour, near_contour])
     = [(10, 20)]"
proof -
  have a: "awaiting_selection clicked_tracker" "click_position clicked_tracker = Some (13, 24)"
    "awaiting_selection clicked_loop_tracker"
    "click_position clicked_loop_tracker = Some (13, 24)"
    by (simp_all add: clicked_tracker_def clicked_loop_tracker_def)
  have cn: "centroid near_contour = (10, 20)" and cf: "centroid far_contour = (500, 500)"
    by (simp_all add: centroid_def py_int_def near_contour_def far_contour_def)
  have n: "m00 near_contour \<noteq> 0 \<and> distance_to (13, 24) near_contour < 100"
    by (simp add: distance_below_100 cn) (simp add: near_contour_def)
  have f: "m00 far_contour \<noteq> 0 \<and> \<not> distance_to (13, 24) far_contour < 100"
    by (simp add: distance_below_100 cf) (simp add: far_contour_def)
  note t1 = click_selection [OF a, of "[far_contour]"]
  note t2 = click_selection [OF a, of "[far_contour, near_contour]"]
  have h1: "\<forall>c \<in> set [far_contour]. m00 c \<noteq> 0 \<longrightarrow> \<not> distance_to (13, 24) c < 100"
    using f by simp
  have h2: "\<exists>c \<in> set [far_contour, near_contour]. m00 c \<noteq> 0 \<and> distance_to (13, 24) c < 100"
    using n by simp
  have u: "\<not> tracking_active clicked_tracker" "target_history clicked_tracker = []"
    "\<not> tracking_active clicked_loop_tracker"
    by (simp_all add: clicked_tracker_def clicked_loop_tracker_def)
  have r1: "\<not> tracking_active (handle_click_selection clicked_tracker [far_contour]) \<and>
   target_history (handle_click_selection clicked_tracker [far_contour]) = [] \<and>
   \<not> tracking_active (loop_click_selection clicked_loop_tracker [far_contour])"
    using t1 h1 u by metis
  obtain c where c: "c \<in> set [far_contour, near_contour]" "distance_to (13, 24) c < 100"
    "tracking_active (handle_click_selection clicked_tracker [far_contour, near_contour])"
    "target_history (handle_click_selection clicked_tracker [far_contour, near_contour])
       = [centroid c]"
    "tracking_active (loop_click_selection clicked_loop_tracker [far_contour, near_contour])"
    "target_history (loop_click_selection clicked_loop_tracker [far_contour, near_contour])
       = [centroid c]"
    using t2 h2 by blast
  have "c = near_contour"
    using c(1,2) f by auto
  then have r2: "tracking_active (handle_click_selection clicked_tracker [far_contour, near_contour]) \<and>
   target_history (handle_click_selection clicked_tracker [far_contour, near_contour])
     = [(10, 20)] \<and>
   tracking_active (loop_click_selection clicked_loop_tracker [far_contour, near_contour]) \<and>
   target_history (loop_click_selection clicked_loop_tracker [far_contour, near_contour])
     = [(10, 20)]"
    using c(3-6) cn by simp
  show ?thesis
    using a n f r1 r2 by blast
qed

end
